theory Spec2Isabelle
  imports Complex_Main
begin

section \<open>Numbers, time and errors\<close>

text \<open>
  Python's \<open>float\<close> is idealised as an exact rational: every decimal literal of the
  source (\<open>6.25\<close>, \<open>1.375\<close>, ...) and every number decoded from a JSON request is a
  rational, and the arithmetic of the handlers (\<open>+\<close>, \<open>-\<close>, \<open>*\<close>, \<open>/\<close>, \<open>**\<close>) is carried out
  without rounding error. Not-a-number, the infinities and the overflow of a double are
  outside this model. Python's \<open>int\<close> is \<open>int\<close>.
\<close>

type_synonym pyfloat = rat

text \<open>
  A naive \<open>datetime\<close> is the number of microseconds since 0001-01-01T00:00:00 on its own
  time line; a \<open>timedelta\<close> is a number of microseconds. The largest \<open>datetime\<close> is
  9999-12-31T23:59:59.999999, the last microsecond of day 3652059.
\<close>

type_synonym datetime = int

definition MICROSECOND :: int where "MICROSECOND = 1"
definition SECOND :: int where "SECOND = 1000000"
definition HOUR :: int where "HOUR = 3600 * 1000000"
definition DAY :: int where "DAY = 86400 * 1000000"

definition DATETIME_MAX :: datetime where
  "DATETIME_MAX = 3652059 * (86400 * 1000000) - 1"

text \<open>
  The exceptions that leave a function of \<open>server.py\<close>. \<open>HTTPException\<close> carries the status
  code and the detail; the others are Python's own and reach the client as a 500.
\<close>

datatype error =
    HTTPException nat string
  | ZeroDivisionError
  | KeyError string
  | TypeError
  | ValidationError
  | ValueError
  | OverflowError

subsection \<open>\<open>int(x)\<close> and \<open>round(x, ndigits)\<close>\<close>

text \<open>\<open>int(x)\<close> on a float truncates towards zero.\<close>

definition py_int :: "pyfloat \<Rightarrow> int" where
  "py_int x = (if 0 \<le> x then \<lfloor>x\<rfloor> else \<lceil>x\<rceil>)"

text \<open>Python rounds to the nearest integer, a tie to the even neighbour.\<close>

definition round_half_even :: "pyfloat \<Rightarrow> int" where
  "round_half_even y =
     (let f = \<lfloor>y\<rfloor>; d = y - of_int f
      in if d < 1 / 2 then f
         else if 1 / 2 < d then f + 1
         else if even f then f else f + 1)"

definition py_round :: "pyfloat \<Rightarrow> nat \<Rightarrow> pyfloat" where
  "py_round x ndigits = of_int (round_half_even (x * 10 ^ ndigits)) / 10 ^ ndigits"

text \<open>
  What the specification calls "rounded to 2 decimals": \<open>r\<close> is a whole number of
  hundredths and no further than half a hundredth from \<open>x\<close>.
\<close>

definition rounded_2_decimals :: "pyfloat \<Rightarrow> pyfloat \<Rightarrow> bool" where
  "rounded_2_decimals x r \<longleftrightarrow>
     r * 100 = of_int \<lfloor>r * 100\<rfloor> \<and> \<bar>r - x\<bar> \<le> 1 / 200"

section \<open>Derivation engine\<close>

text \<open>
  \<^verbatim>\<open>def calculate_bmi(weight: float, height: float) -> float:
    return round(weight / ((height / 100) ** 2), 2)\<close>
  Python raises \<open>ZeroDivisionError\<close> on a float division by zero.
\<close>

definition calculate_bmi :: "pyfloat \<Rightarrow> pyfloat \<Rightarrow> error + pyfloat" where
  "calculate_bmi weight height =
     (let divisor = (height / 100) ^ 2
      in if divisor = 0 then Inl ZeroDivisionError
         else Inr (py_round (weight / divisor) 2))"


subsection \<open>Accounts and the daily calorie estimate\<close>

datatype GoalType = WEIGHT_LOSS | MUSCLE_GAIN | MAINTENANCE | ENDURANCE

text \<open>
  \<open>ActivityLevel\<close> is a \<open>str\<close> enumeration: its members are the strings themselves, and a
  level is looked up in the multiplier dictionary by its string.
\<close>

definition SEDENTARY :: string where "SEDENTARY = ''sedentary''"
definition LIGHTLY_ACTIVE :: string where "LIGHTLY_ACTIVE = ''lightly_active''"
definition MODERATELY_ACTIVE :: string where "MODERATELY_ACTIVE = ''moderately_active''"
definition VERY_ACTIVE :: string where "VERY_ACTIVE = ''very_active''"
definition EXTREMELY_ACTIVE :: string where "EXTREMELY_ACTIVE = ''extremely_active''"

text \<open>
  The \<open>User\<close> model. \<open>age\<close>, \<open>height\<close> and \<open>weight\<close> are optional here so that an attribute
  that is missing (Python's \<open>None\<close>) can be told from one that is zero; a \<open>User\<close> that
  pydantic has validated always holds a value in each.
\<close>

record User =
  id :: string
  username :: string
  email :: string
  full_name :: string
  age :: "int option"
  height :: "pyfloat option"
  weight :: "pyfloat option"
  goal_type :: GoalType
  activity_level :: string
  created_at :: datetime
  updated_at :: datetime

text \<open>Truth value of an attribute in a condition: \<open>None\<close> and zero are false.\<close>

definition truthy :: "'a::zero option \<Rightarrow> bool" where
  "truthy v = (case v of None \<Rightarrow> False | Some x \<Rightarrow> x \<noteq> 0)"

definition activity_multiplier :: "(string \<times> pyfloat) list" where
  "activity_multiplier =
     [(SEDENTARY, 1.2),
      (LIGHTLY_ACTIVE, 1.375),
      (MODERATELY_ACTIVE, 1.55),
      (VERY_ACTIVE, 1.725),
      (EXTREMELY_ACTIVE, 1.9)]"

text \<open>
  \<^verbatim>\<open>def calculate_daily_calories(user: User) -> int:
    if user.age and user.weight and user.height:
        bmr = 10 * user.weight + 6.25 * user.height - 5 * user.age + 5
        activity_multiplier = {...}
        daily_calories = bmr * activity_multiplier.get(user.activity_level, 1.2)
        return int(daily_calories)
    return 2000  # default\<close>
\<close>

definition calculate_daily_calories :: "User \<Rightarrow> int" where
  "calculate_daily_calories user =
     (if truthy (User.age user) \<and> truthy (User.weight user) \<and> truthy (User.height user)
      then (case (User.age user, User.weight user, User.height user) of
              (Some a, Some w, Some h) \<Rightarrow>
                (let bmr = 10 * w + 6.25 * h - 5 * of_int a + 5;
                     daily_calories =
                       bmr * (case map_of activity_multiplier (User.activity_level user) of
                                Some m \<Rightarrow> m
                              | None \<Rightarrow> 1.2)
                 in py_int daily_calories)
            | _ \<Rightarrow> 2000)
      else 2000)"

text \<open>
  The specification's \<open>dailyCalories\<close>: the activity coefficient keyed by the level, with
  1.2 for a level that is not recognised, and the truncated product.
\<close>

definition activity_coefficient_spec :: "string \<Rightarrow> pyfloat" where
  "activity_coefficient_spec level =
     (if level = ''sedentary'' then 1.2
      else if level = ''lightly_active'' then 1.375
      else if level = ''moderately_active'' then 1.55
      else if level = ''very_active'' then 1.725
      else if level = ''extremely_active'' then 1.9
      else 1.2)"

definition dailyCalories_spec :: "int \<Rightarrow> pyfloat \<Rightarrow> pyfloat \<Rightarrow> string \<Rightarrow> int" where
  "dailyCalories_spec a w h level =
     py_int ((10 * w + 6.25 * h - 5 * of_int a + 5) * activity_coefficient_spec level)"

text \<open>The account of the specification's worked example.\<close>

definition example_user :: User where
  "example_user =
     \<lparr>User.id = ''u1'', User.username = ''alice'', User.email = ''alice@example.com'',
      User.full_name = ''Alice'', User.age = Some 25, User.height = Some 175,
      User.weight = Some 70, User.goal_type = MAINTENANCE,
      User.activity_level = MODERATELY_ACTIVE, User.created_at = 0, User.updated_at = 0\<rparr>"

section \<open>Credential manager\<close>

subsection \<open>The signed-token library\<close>

text \<open>
  Modelled from the spec: the signed-token library behind \<open>jwt.encode\<close> and \<open>jwt.decode\<close>,
  which is not part of the repository. The specification asks for "a pure
  signing/verification pair over a small structured payload (account id, expiry) using
  any standard signed-token or HMAC scheme", whose verification "decodes and checks
  signature and expiry".

  A token string either has the shape of a signed token (the algorithm named in its header,
  the payload and a signature) or it does not. The keyed signing function is a parameter
  \<open>mac\<close> of the model. The payload is the dictionary with the keys \<open>"user_id"\<close> and
  \<open>"exp"\<close>, each of which may be absent. The expiry is carried at the resolution of
  \<open>datetime\<close>; the coarser resolution of a concrete token format is not modelled.
\<close>

record jwt_payload =
  jwt_user_id :: "string option"
  jwt_exp :: "datetime option"

datatype 'sig token =
    Malformed
  | Signed string jwt_payload 'sig

text \<open>
  The library's exceptions; each of them is an \<open>InvalidTokenError\<close>, also
  \<open>ExpiredSignatureError\<close>.
\<close>

datatype jwt_error =
    ExpiredSignatureError
  | InvalidSignatureError
  | InvalidAlgorithmError
  | DecodeError

definition jwt_encode ::
  "(string \<Rightarrow> string \<Rightarrow> jwt_payload \<Rightarrow> 'sig) \<Rightarrow> jwt_payload \<Rightarrow> string \<Rightarrow> string \<Rightarrow> 'sig token" where
  "jwt_encode mac payload key algorithm = Signed algorithm payload (mac key algorithm payload)"

text \<open>
  Decoding checks the shape, the algorithm, the signature and then the expiry against
  the clock \<open>now\<close>. The claims of this development concern times strictly before and
  strictly after the expiry; at the instant of expiry itself the token counts as expired.
\<close>

definition jwt_decode ::
  "(string \<Rightarrow> string \<Rightarrow> jwt_payload \<Rightarrow> 'sig) \<Rightarrow> datetime \<Rightarrow> 'sig token \<Rightarrow> string \<Rightarrow> string list
     \<Rightarrow> jwt_error + jwt_payload" where
  "jwt_decode mac now tok key algorithms =
     (case tok of
        Malformed \<Rightarrow> Inl DecodeError
      | Signed alg payload sig \<Rightarrow>
          if alg \<notin> set algorithms then Inl InvalidAlgorithmError
          else if sig \<noteq> mac key alg payload then Inl InvalidSignatureError
          else (case jwt_exp payload of
                  None \<Rightarrow> Inr payload
                | Some e \<Rightarrow> if e \<le> now then Inl ExpiredSignatureError else Inr payload))"

subsection \<open>Issuing and verifying\<close>

definition JWT_ALGORITHM :: string where "JWT_ALGORITHM = ''HS256''"

text \<open>
  \<^verbatim>\<open>def create_jwt_token(user_id: str) -> str:
    payload = {"user_id": user_id, "exp": datetime.utcnow() + timedelta(hours=24)}
    return jwt.encode(payload, JWT_SECRET, algorithm=JWT_ALGORITHM)\<close>
  \<open>JWT_SECRET\<close> is read from the environment and is a parameter, as is the reading
  \<open>utcnow\<close> of the clock.
\<close>

definition create_jwt_token ::
  "(string \<Rightarrow> string \<Rightarrow> jwt_payload \<Rightarrow> 'sig) \<Rightarrow> string \<Rightarrow> datetime \<Rightarrow> string \<Rightarrow> 'sig token" where
  "create_jwt_token mac JWT_SECRET utcnow user_id =
     (let payload = \<lparr>jwt_user_id = Some user_id, jwt_exp = Some (utcnow + 24 * HOUR)\<rparr>
      in jwt_encode mac payload JWT_SECRET JWT_ALGORITHM)"

text \<open>
  \<^verbatim>\<open>def verify_jwt_token(token: str) -> str:
    try:
        payload = jwt.decode(token, JWT_SECRET, algorithms=[JWT_ALGORITHM])
        return payload["user_id"]
    except jwt.ExpiredSignatureError:
        raise HTTPException(status_code=401, detail="Token expired")
    except jwt.InvalidTokenError:
        raise HTTPException(status_code=401, detail="Invalid token")\<close>
  A payload without \<open>"user_id"\<close> raises \<open>KeyError\<close>, which neither handler catches.
\<close>

definition verify_jwt_token ::
  "(string \<Rightarrow> string \<Rightarrow> jwt_payload \<Rightarrow> 'sig) \<Rightarrow> string \<Rightarrow> datetime \<Rightarrow> 'sig token \<Rightarrow> error + string" where
  "verify_jwt_token mac JWT_SECRET now tok =
     (case jwt_decode mac now tok JWT_SECRET [JWT_ALGORITHM] of
        Inr payload \<Rightarrow>
          (case jwt_user_id payload of
             Some user_id \<Rightarrow> Inr user_id
           | None \<Rightarrow> Inl (KeyError ''user_id''))
      | Inl ExpiredSignatureError \<Rightarrow> Inl (HTTPException 401 ''Token expired'')
      | Inl _ \<Rightarrow> Inl (HTTPException 401 ''Invalid token''))"

text \<open>
  Whether the checks of the library on shape, algorithm and signature pass for a token,
  under the secret and the algorithm of the server.
\<close>

definition signature_and_shape_ok ::
  "(string \<Rightarrow> string \<Rightarrow> jwt_payload \<Rightarrow> 'sig) \<Rightarrow> string \<Rightarrow> 'sig token \<Rightarrow> bool" where
  "signature_and_shape_ok mac JWT_SECRET tok =
     (case tok of
        Malformed \<Rightarrow> False
      | Signed alg payload sig \<Rightarrow> alg = JWT_ALGORITHM \<and> sig = mac JWT_SECRET alg payload)"

text \<open>A signing function for concrete runs: the signature records what was signed.\<close>

definition example_mac :: "string \<Rightarrow> string \<Rightarrow> jwt_payload \<Rightarrow> string \<times> string \<times> jwt_payload" where
  "example_mac key alg payload = (key, alg, payload)"

section \<open>Catalog and log store\<close>

subsection \<open>The documents\<close>

datatype ExerciseType = CARDIO | STRENGTH | FLEXIBILITY | SPORTS

record UserCreate =
  username :: string
  email :: string
  password :: string
  full_name :: string
  age :: int
  height :: pyfloat
  weight :: pyfloat
  goal_type :: GoalType
  activity_level :: string

text \<open>The document of the \<open>users\<close> collection: \<open>user.dict()\<close> with the password hash added.\<close>

record UserDoc = User +
  password_hash :: string

record UserProfile =
  id :: string
  username :: string
  email :: string
  full_name :: string
  age :: int
  height :: pyfloat
  weight :: pyfloat
  goal_type :: GoalType
  activity_level :: string
  bmi :: pyfloat
  daily_calories :: int

record FoodItem =
  id :: string
  name :: string
  calories_per_100g :: pyfloat
  protein_per_100g :: pyfloat
  carbs_per_100g :: pyfloat
  fat_per_100g :: pyfloat
  fiber_per_100g :: "pyfloat option"
  created_at :: datetime

record MealEntry =
  id :: string
  user_id :: string
  food_item_id :: string
  food_name :: string
  quantity :: pyfloat
  calories :: pyfloat
  protein :: pyfloat
  carbs :: pyfloat
  fat :: pyfloat
  meal_type :: string
  logged_at :: datetime

record MealEntryCreate =
  food_item_id :: string
  quantity :: pyfloat
  meal_type :: string

record Exercise =
  id :: string
  name :: string
  type :: ExerciseType
  muscle_groups :: "string list"
  description :: string
  instructions :: "string list"
  calories_per_minute :: pyfloat
  created_at :: datetime

record WorkoutEntry =
  id :: string
  user_id :: string
  exercise_id :: string
  exercise_name :: string
  duration :: int
  calories_burned :: pyfloat
  sets :: "int option"
  reps :: "int option"
  weight :: "pyfloat option"
  notes' :: "string option"
  completed_at :: datetime

record WorkoutEntryCreate =
  exercise_id :: string
  duration :: int
  sets :: "int option"
  reps :: "int option"
  weight :: "pyfloat option"
  notes' :: "string option"

record Goal =
  id :: string
  user_id :: string
  goal_type :: GoalType
  target_weight :: "pyfloat option"
  target_date :: "datetime option"
  current_progress :: pyfloat
  is_achieved :: bool
  created_at :: datetime
  updated_at :: datetime

subsection \<open>The store\<close>

text \<open>
  Modelled from the spec: the persistent store, a collaborator outside the repository, "a
  keyed document collection supporting insert-one, find-by-filter (equality and range on
  indexed fields), count, and a grouped-sum aggregation; one logical collection per entity
  kind". A collection is the list of its documents in the order of insertion, which is
  the order in which a query returns them.
\<close>

record database =
  users :: "UserDoc list"
  food_items :: "FoodItem list"
  meal_entries :: "MealEntry list"
  exercises :: "Exercise list"
  workout_entries :: "WorkoutEntry list"
  goals :: "Goal list"

definition find_one :: "('a \<Rightarrow> bool) \<Rightarrow> 'a list \<Rightarrow> 'a option" where
  "find_one query collection = List.find query collection"

definition find_docs :: "('a \<Rightarrow> bool) \<Rightarrow> 'a list \<Rightarrow> 'a list" where
  "find_docs query collection = filter query collection"

definition to_list :: "nat \<Rightarrow> 'a list \<Rightarrow> 'a list" where
  "to_list length_limit cursor = take length_limit cursor"

definition insert_one :: "'a \<Rightarrow> 'a list \<Rightarrow> 'a list" where
  "insert_one document collection = collection @ [document]"

subsection \<open>Clock and calendar\<close>

text \<open>
  The successive readings of a clock during one request: \<open>clock 0\<close> is the first reading,
  \<open>clock 1\<close> the next. \<open>utcnow\<close> stands for \<open>datetime.utcnow\<close> and \<open>now\<close> for the local
  \<open>datetime.now\<close>.
\<close>

type_synonym clock = "nat \<Rightarrow> datetime"

text \<open>\<open>dt.replace(hour=0, minute=0, second=0, microsecond=0)\<close>\<close>

definition replace_midnight :: "datetime \<Rightarrow> datetime" where
  "replace_midnight dt = dt - dt mod DAY"

text \<open>\<open>dt + delta\<close>, which raises \<open>OverflowError\<close> outside the range of \<open>datetime\<close>.\<close>

definition add_timedelta :: "datetime \<Rightarrow> int \<Rightarrow> error + datetime" where
  "add_timedelta dt delta =
     (if dt + delta < 0 \<or> DATETIME_MAX < dt + delta then Inl OverflowError
      else Inr (dt + delta))"

section \<open>Request handlers\<close>

text \<open>
  A handler takes the store and returns its response, or the exception it raises, and
  the store it leaves behind where it writes. The acting account \<open>current_user_id\<close> is
  the result of \<open>get_current_user\<close>. Fresh identifiers (\<open>uuid4\<close>), the salt and the
  readings of the clocks are parameters.
\<close>

subsection \<open>Registration\<close>

text \<open>\<open>bcrypt.hashpw(password, bcrypt.gensalt())\<close>, with the hash function as a parameter.\<close>

definition hash_password :: "(string \<Rightarrow> string \<Rightarrow> string) \<Rightarrow> string \<Rightarrow> string \<Rightarrow> string" where
  "hash_password bcrypt_hashpw gensalt pw = bcrypt_hashpw pw gensalt"

text \<open>
  The \<open>UserProfile(...)\<close> that the authentication routes build from a \<open>User\<close>. Its
  arguments are evaluated first, \<open>calculate_bmi\<close> among them.
\<close>

definition user_profile :: "User \<Rightarrow> error + UserProfile" where
  "user_profile user =
     (case (User.weight user, User.height user) of
        (Some w, Some h) \<Rightarrow>
          (case calculate_bmi w h of
             Inl e \<Rightarrow> Inl e
           | Inr b \<Rightarrow>
               (case User.age user of
                  None \<Rightarrow> Inl ValidationError
                | Some a \<Rightarrow>
                    Inr \<lparr>UserProfile.id = User.id user,
                         UserProfile.username = User.username user,
                         UserProfile.email = User.email user,
                         UserProfile.full_name = User.full_name user,
                         UserProfile.age = a,
                         UserProfile.height = h,
                         UserProfile.weight = w,
                         UserProfile.goal_type = User.goal_type user,
                         UserProfile.activity_level = User.activity_level user,
                         UserProfile.bmi = b,
                         UserProfile.daily_calories = calculate_daily_calories user\<rparr>))
      | _ \<Rightarrow> Inl TypeError)"

text \<open>
  \<^verbatim>\<open>async def register_user(user_data: UserCreate):
    existing_user = await db.users.find_one(
        {"$or": [{"username": user_data.username}, {"email": user_data.email}]})
    if existing_user:
        raise HTTPException(status_code=400, detail="Username or email already exists")
    hashed_password = hash_password(user_data.password)
    ...
    user = User(**user_dict)
    user_data_with_hash = user.dict()
    user_data_with_hash['password_hash'] = hashed_password
    await db.users.insert_one(user_data_with_hash)
    token = create_jwt_token(user.id)
    return {"token": token, "user": UserProfile(...)}\<close>
\<close>

definition register_user ::
  "(string \<Rightarrow> string \<Rightarrow> string) \<Rightarrow> (string \<Rightarrow> string \<Rightarrow> jwt_payload \<Rightarrow> 'sig) \<Rightarrow> string
     \<Rightarrow> string \<Rightarrow> string \<Rightarrow> clock \<Rightarrow> database \<Rightarrow> UserCreate
     \<Rightarrow> (error + 'sig token \<times> UserProfile) \<times> database" where
  "register_user bcrypt_hashpw mac JWT_SECRET uuid4 gensalt utcnow db user_data =
     (case find_one (\<lambda>doc. User.username doc = UserCreate.username user_data
                           \<or> User.email doc = UserCreate.email user_data) (users db) of
        Some existing_user \<Rightarrow>
          (Inl (HTTPException 400 ''Username or email already exists''), db)
      | None \<Rightarrow>
          (let hashed_password = hash_password bcrypt_hashpw gensalt (UserCreate.password user_data);
               user = \<lparr>User.id = uuid4,
                       User.username = UserCreate.username user_data,
                       User.email = UserCreate.email user_data,
                       User.full_name = UserCreate.full_name user_data,
                       User.age = Some (UserCreate.age user_data),
                       User.height = Some (UserCreate.height user_data),
                       User.weight = Some (UserCreate.weight user_data),
                       User.goal_type = UserCreate.goal_type user_data,
                       User.activity_level = UserCreate.activity_level user_data,
                       User.created_at = utcnow 0,
                       User.updated_at = utcnow 1\<rparr>;
               user_data_with_hash = User.extend user (UserDoc.fields hashed_password);
               db' = db\<lparr>users := insert_one user_data_with_hash (users db)\<rparr>;
               token = create_jwt_token mac JWT_SECRET (utcnow 2) (User.id user)
           in case user_profile user of
                Inl e \<Rightarrow> (Inl e, db')
              | Inr profile \<Rightarrow> (Inr (token, profile), db')))"

subsection \<open>Food catalog and meal log\<close>

text \<open>\<open>food_items = await db.food_items.find().to_list(1000)\<close>\<close>

definition get_food_items :: "database \<Rightarrow> FoodItem list" where
  "get_food_items db = to_list 1000 (find_docs (\<lambda>item. True) (food_items db))"

text \<open>
  \<^verbatim>\<open>async def log_meal(meal_data: MealEntryCreate, current_user_id: str = ...):
    food_item = await db.food_items.find_one({"id": meal_data.food_item_id})
    if not food_item:
        raise HTTPException(status_code=404, detail="Food item not found")
    quantity_ratio = meal_data.quantity / 100  # food items are per 100g
    calories = food_item['calories_per_100g'] * quantity_ratio
    ...
    meal_entry = MealEntry(..., quantity=meal_data.quantity,
                           calories=round(calories, 2), ...)
    await db.meal_entries.insert_one(meal_entry.dict())
    return meal_entry\<close>
\<close>

definition log_meal ::
  "string \<Rightarrow> clock \<Rightarrow> database \<Rightarrow> MealEntryCreate \<Rightarrow> string \<Rightarrow> (error + MealEntry) \<times> database" where
  "log_meal uuid4 utcnow db meal_data current_user_id =
     (case find_one (\<lambda>item. FoodItem.id item = MealEntryCreate.food_item_id meal_data)
             (food_items db) of
        None \<Rightarrow> (Inl (HTTPException 404 ''Food item not found''), db)
      | Some food_item \<Rightarrow>
          (let quantity_ratio = MealEntryCreate.quantity meal_data / 100;
               calories = calories_per_100g food_item * quantity_ratio;
               protein = protein_per_100g food_item * quantity_ratio;
               carbs = carbs_per_100g food_item * quantity_ratio;
               fat = fat_per_100g food_item * quantity_ratio;
               meal_entry =
                 \<lparr>MealEntry.id = uuid4,
                  MealEntry.user_id = current_user_id,
                  MealEntry.food_item_id = MealEntryCreate.food_item_id meal_data,
                  MealEntry.food_name = FoodItem.name food_item,
                  MealEntry.quantity = MealEntryCreate.quantity meal_data,
                  MealEntry.calories = py_round calories 2,
                  MealEntry.protein = py_round protein 2,
                  MealEntry.carbs = py_round carbs 2,
                  MealEntry.fat = py_round fat 2,
                  MealEntry.meal_type = MealEntryCreate.meal_type meal_data,
                  MealEntry.logged_at = utcnow 0\<rparr>
           in (Inr meal_entry,
               db\<lparr>meal_entries := insert_one meal_entry (meal_entries db)\<rparr>)))"

text \<open>
  \<^verbatim>\<open>async def get_meal_log(date: Optional[str] = None, current_user_id: str = ...):
    if date:
        start_date = datetime.fromisoformat(date)
    else:
        start_date = datetime.now().replace(hour=0, minute=0, second=0, microsecond=0)
    end_date = start_date + timedelta(days=1)
    meal_entries = await db.meal_entries.find({
        "user_id": current_user_id,
        "logged_at": {"$gte": start_date, "$lt": end_date}
    }).to_list(1000)
    return [MealEntry(**entry) for entry in meal_entries]\<close>
  \<open>datetime.fromisoformat\<close> is a parameter; it gives \<open>None\<close> where Python raises
  \<open>ValueError\<close>. An empty \<open>date\<close> is false in the condition, like an absent one.
\<close>

definition get_meal_log ::
  "(string \<Rightarrow> datetime option) \<Rightarrow> clock \<Rightarrow> database \<Rightarrow> string option \<Rightarrow> string
     \<Rightarrow> error + MealEntry list" where
  "get_meal_log fromisoformat now db date current_user_id =
     (case (case date of
              Some s \<Rightarrow>
                if s \<noteq> [] then (case fromisoformat s of
                                   Some dt \<Rightarrow> Inr dt
                                 | None \<Rightarrow> Inl ValueError)
                else Inr (replace_midnight (now 0))
            | None \<Rightarrow> Inr (replace_midnight (now 0))) of
        Inl e \<Rightarrow> Inl e
      | Inr start_date \<Rightarrow>
          (case add_timedelta start_date DAY of
             Inl e \<Rightarrow> Inl e
           | Inr end_date \<Rightarrow>
               Inr (to_list 1000
                      (find_docs (\<lambda>entry. MealEntry.user_id entry = current_user_id
                                        \<and> start_date \<le> logged_at entry
                                        \<and> logged_at entry < end_date)
                         (meal_entries db)))))"




subsection \<open>Exercise catalog and workout log\<close>

text \<open>
  \<^verbatim>\<open>query = {}
    if exercise_type:
        query["type"] = exercise_type
    exercises = await db.exercises.find(query).to_list(1000)\<close>
\<close>

definition get_exercises :: "database \<Rightarrow> ExerciseType option \<Rightarrow> Exercise list" where
  "get_exercises db exercise_type =
     (let query = (case exercise_type of
                     Some t \<Rightarrow> (\<lambda>exercise. Exercise.type exercise = t)
                   | None \<Rightarrow> (\<lambda>exercise. True))
      in to_list 1000 (find_docs query (exercises db)))"

text \<open>
  \<^verbatim>\<open>async def log_workout(workout_data: WorkoutEntryCreate, current_user_id: str = ...):
    exercise = await db.exercises.find_one({"id": workout_data.exercise_id})
    if not exercise:
        raise HTTPException(status_code=404, detail="Exercise not found")
    calories_burned = exercise['calories_per_minute'] * workout_data.duration
    workout_entry = WorkoutEntry(..., duration=workout_data.duration,
                                 calories_burned=round(calories_burned, 2), ...)
    await db.workout_entries.insert_one(workout_entry.dict())
    return workout_entry\<close>
\<close>

definition log_workout ::
  "string \<Rightarrow> clock \<Rightarrow> database \<Rightarrow> WorkoutEntryCreate \<Rightarrow> string
     \<Rightarrow> (error + WorkoutEntry) \<times> database" where
  "log_workout uuid4 utcnow db workout_data current_user_id =
     (case find_one (\<lambda>doc. Exercise.id doc = WorkoutEntryCreate.exercise_id workout_data)
             (exercises db) of
        None \<Rightarrow> (Inl (HTTPException 404 ''Exercise not found''), db)
      | Some exercise \<Rightarrow>
          (let calories_burned = calories_per_minute exercise
                          * of_int (WorkoutEntryCreate.duration workout_data);
               workout_entry =
                 \<lparr>WorkoutEntry.id = uuid4,
                  WorkoutEntry.user_id = current_user_id,
                  WorkoutEntry.exercise_id = WorkoutEntryCreate.exercise_id workout_data,
                  WorkoutEntry.exercise_name = Exercise.name exercise,
                  WorkoutEntry.duration = WorkoutEntryCreate.duration workout_data,
                  WorkoutEntry.calories_burned = py_round calories_burned 2,
                  WorkoutEntry.sets = WorkoutEntryCreate.sets workout_data,
                  WorkoutEntry.reps = WorkoutEntryCreate.reps workout_data,
                  WorkoutEntry.weight = WorkoutEntryCreate.weight workout_data,
                  WorkoutEntry.notes' = WorkoutEntryCreate.notes' workout_data,
                  WorkoutEntry.completed_at = utcnow 0\<rparr>
           in (Inr workout_entry,
               db\<lparr>workout_entries := insert_one workout_entry (workout_entries db)\<rparr>)))"


subsection \<open>Goals and dashboard\<close>

text \<open>\<open>goals = await db.goals.find({"user_id": current_user_id}).to_list(1000)\<close>\<close>

definition get_user_goals :: "database \<Rightarrow> string \<Rightarrow> Goal list" where
  "get_user_goals db current_user_id =
     to_list 1000 (find_docs (\<lambda>goal. Goal.user_id goal = current_user_id) (goals db))"




section \<open>What the specification says\<close>

text \<open>
  \<open>scaleNutrition\<close>: "each density \<times> quantityGrams/100", and \<open>calorieBurn\<close>:
  "rate \<times> duration", before the rounding to 2 decimals.
\<close>

definition scaleNutrition_spec :: "pyfloat \<Rightarrow> pyfloat \<Rightarrow> pyfloat" where
  "scaleNutrition_spec density quantityGrams = density * quantityGrams / 100"

definition calorieBurn_spec :: "pyfloat \<Rightarrow> int \<Rightarrow> pyfloat" where
  "calorieBurn_spec ratePerMinute durationMinutes = ratePerMinute * of_int durationMinutes"

text \<open>
  \<open>dayWindow\<close>: "if a calendar date is supplied, window = that date at 00:00:00 to +24h; if
  absent, window = current day at 00:00:00 to +24h". A calendar date is the number of
  whole days since 0001-01-01, so its 00:00:00 is that many days on the time line.
\<close>

definition dayWindow_spec :: "int option \<Rightarrow> datetime \<Rightarrow> datetime \<times> datetime" where
  "dayWindow_spec calendar_date current_time =
     (let dayStart = (case calendar_date of
                        Some d \<Rightarrow> d * DAY
                      | None \<Rightarrow> (current_time div DAY) * DAY)
      in (dayStart, dayStart + 24 * HOUR))"

text \<open>Membership in a half-open window \<open>[start, end)\<close>.\<close>

definition in_window :: "datetime \<times> datetime \<Rightarrow> datetime \<Rightarrow> bool" where
  "in_window w t \<longleftrightarrow> fst w \<le> t \<and> t < snd w"

text \<open>
  The entries that \<open>aggregateNutrition\<close> and \<open>aggregateWorkouts\<close> range over: those "owned
  by accountId whose logged-at timestamp falls in \<open>[dayStart, dayStart+24h)\<close>", and "the
  same windowing over Workout Entries' completed-at timestamp".
\<close>

definition window_meals :: "string \<Rightarrow> datetime \<times> datetime \<Rightarrow> MealEntry list \<Rightarrow> MealEntry list" where
  "window_meals accountId w entries =
     filter (\<lambda>entry. MealEntry.user_id entry = accountId \<and> in_window w (logged_at entry)) entries"




section \<open>Concrete inputs\<close>

text \<open>A token as issued at time 1000 for \<open>account-1\<close>, and the same token with the
  account id in its payload replaced and the signature left as it was.\<close>

definition issued_payload :: jwt_payload where
  "issued_payload = \<lparr>jwt_user_id = Some ''account-1'', jwt_exp = Some (1000 + 24 * HOUR)\<rparr>"

definition mutated_token :: "(string \<times> string \<times> jwt_payload) token" where
  "mutated_token =
     Signed ''HS256'' (issued_payload\<lparr>jwt_user_id := Some ''account-2''\<rparr>)
       (example_mac ''secret'' ''HS256'' issued_payload)"

definition example_clock :: clock where
  "example_clock k = 5000 + int k"

definition chicken_breast :: FoodItem where
  "chicken_breast =
     \<lparr>FoodItem.id = ''food-1'', FoodItem.name = ''Chicken Breast'',
      calories_per_100g = 165, protein_per_100g = 31, carbs_per_100g = 0,
      fat_per_100g = 3.6, fiber_per_100g = Some 0, FoodItem.created_at = 0\<rparr>"

definition push_ups :: Exercise where
  "push_ups =
     \<lparr>Exercise.id = ''exercise-1'', Exercise.name = ''Push-ups'', Exercise.type = STRENGTH,
      muscle_groups = [''chest'', ''triceps'', ''shoulders''],
      description = ''Classic bodyweight exercise'',
      instructions = [''Start in plank position'', ''Lower body to ground'', ''Push back up''],
      calories_per_minute = 8.0, Exercise.created_at = 0\<rparr>"

definition seed_db :: database where
  "seed_db = \<lparr>users = [], food_items = [chicken_breast], meal_entries = [],
              exercises = [push_ups], workout_entries = [], goals = []\<rparr>"

definition meal_request :: "pyfloat \<Rightarrow> MealEntryCreate" where
  "meal_request q =
     \<lparr>MealEntryCreate.food_item_id = ''food-1'', MealEntryCreate.quantity = q,
      MealEntryCreate.meal_type = ''lunch''\<rparr>"

definition workout_request :: "int \<Rightarrow> WorkoutEntryCreate" where
  "workout_request d =
     \<lparr>WorkoutEntryCreate.exercise_id = ''exercise-1'', WorkoutEntryCreate.duration = d,
      WorkoutEntryCreate.sets = Some 3, WorkoutEntryCreate.reps = Some 15,
      WorkoutEntryCreate.weight = None, WorkoutEntryCreate.notes' = None\<rparr>"

definition meal_150 :: MealEntry where
  "meal_150 =
     \<lparr>MealEntry.id = ''meal-1'', MealEntry.user_id = ''account-1'',
      MealEntry.food_item_id = ''food-1'', MealEntry.food_name = ''Chicken Breast'',
      MealEntry.quantity = 150, MealEntry.calories = 247.5, MealEntry.protein = 46.5,
      MealEntry.carbs = 0, MealEntry.fat = 5.4,
      MealEntry.meal_type = ''lunch'', MealEntry.logged_at = 5000\<rparr>"

definition workout_30 :: WorkoutEntry where
  "workout_30 =
     \<lparr>WorkoutEntry.id = ''workout-1'', WorkoutEntry.user_id = ''account-1'',
      WorkoutEntry.exercise_id = ''exercise-1'', WorkoutEntry.exercise_name = ''Push-ups'',
      WorkoutEntry.duration = 30, WorkoutEntry.calories_burned = 240,
      WorkoutEntry.sets = Some 3, WorkoutEntry.reps = Some 15,
      WorkoutEntry.weight = None, WorkoutEntry.notes' = None,
      WorkoutEntry.completed_at = 5000\<rparr>"

definition logged_db :: database where
  "logged_db = seed_db\<lparr>meal_entries := [meal_150], workout_entries := [workout_30]\<rparr>"

definition example_hashpw :: "string \<Rightarrow> string \<Rightarrow> string" where
  "example_hashpw pw salt = salt @ ''$'' @ pw"

definition alice_request :: UserCreate where
  "alice_request =
     \<lparr>UserCreate.username = ''alice'', UserCreate.email = ''alice@example.com'',
      UserCreate.password = ''TestPass123!'', UserCreate.full_name = ''Alice'',
      UserCreate.age = 25, UserCreate.height = 175, UserCreate.weight = 70,
      UserCreate.goal_type = MAINTENANCE, UserCreate.activity_level = MODERATELY_ACTIVE\<rparr>"

definition same_username_request :: UserCreate where
  "same_username_request =
     \<lparr>UserCreate.username = ''alice'', UserCreate.email = ''other@example.com'',
      UserCreate.password = ''different'', UserCreate.full_name = ''Another Alice'',
      UserCreate.age = 40, UserCreate.height = 160, UserCreate.weight = 55,
      UserCreate.goal_type = WEIGHT_LOSS, UserCreate.activity_level = SEDENTARY\<rparr>"

definition same_email_request :: UserCreate where
  "same_email_request =
     \<lparr>UserCreate.username = ''bob'', UserCreate.email = ''alice@example.com'',
      UserCreate.password = ''different'', UserCreate.full_name = ''Bob'',
      UserCreate.age = 40, UserCreate.height = 160, UserCreate.weight = 55,
      UserCreate.goal_type = WEIGHT_LOSS, UserCreate.activity_level = SEDENTARY\<rparr>"

definition alice_doc :: UserDoc where
  "alice_doc =
     \<lparr>User.id = ''account-1'', User.username = ''alice'', User.email = ''alice@example.com'',
      User.full_name = ''Alice'', User.age = Some 25, User.height = Some 175,
      User.weight = Some 70, User.goal_type = MAINTENANCE,
      User.activity_level = MODERATELY_ACTIVE, User.created_at = 5000,
      User.updated_at = 5001, password_hash = ''salt$TestPass123!''\<rparr>"

definition alice_profile :: UserProfile where
  "alice_profile =
     \<lparr>UserProfile.id = ''account-1'', UserProfile.username = ''alice'',
      UserProfile.email = ''alice@example.com'', UserProfile.full_name = ''Alice'',
      UserProfile.age = 25, UserProfile.height = 175, UserProfile.weight = 70,
      UserProfile.goal_type = MAINTENANCE, UserProfile.activity_level = MODERATELY_ACTIVE,
      UserProfile.bmi = 22.86, UserProfile.daily_calories = 2594\<rparr>"

definition alice_db :: database where
  "alice_db = seed_db\<lparr>users := [alice_doc]\<rparr>"

definition boundary_clock :: clock where
  "boundary_clock k = 738000 * DAY + HOUR + int k"

definition example_fromisoformat :: "string \<Rightarrow> datetime option" where
  "example_fromisoformat s = (if s = ''2021-07-30'' then Some (738000 * DAY) else None)"

definition meal_at :: "datetime \<Rightarrow> MealEntry" where
  "meal_at t = meal_150\<lparr>MealEntry.logged_at := t\<rparr>"



definition weight_goal :: Goal where
  "weight_goal =
     \<lparr>Goal.id = ''goal-1'', Goal.user_id = ''account-1'', Goal.goal_type = WEIGHT_LOSS,
      target_weight = Some 65, target_date = None, current_progress = 0,
      is_achieved = False, Goal.created_at = 0, Goal.updated_at = 0\<rparr>"

definition big_db :: database where
  "big_db =
     \<lparr>users = [], food_items = replicate 1001 chicken_breast,
      meal_entries = replicate 1001 (meal_at (738000 * DAY)),
      exercises = replicate 1001 push_ups, workout_entries = [],
      goals = replicate 1001 weight_goal\<rparr>"

section \<open>Verification: derivation engine\<close>

subsection \<open>Rounding\<close>

lemma round_half_even_near: "\<bar>of_int (round_half_even y) - y\<bar> \<le> 1 / 2"
proof -
  have lo: "of_int \<lfloor>y\<rfloor> \<le> y" and hi: "y < of_int \<lfloor>y\<rfloor> + 1"
    by linarith+
  show ?thesis
    using lo hi by (auto simp: round_half_even_def Let_def abs_le_iff)
qed

lemma py_round_2_rounded: "rounded_2_decimals x (py_round x 2)"
proof -
  let ?k = "round_half_even (x * 100)"
  have near: "\<bar>of_int ?k - x * 100\<bar> \<le> 1 / 2"
    using round_half_even_near [of "x * 100"] .
  have r: "py_round x 2 = of_int ?k / 100"
    by (simp add: py_round_def)
  have whole: "py_round x 2 * 100 = of_int \<lfloor>py_round x 2 * 100\<rfloor>"
    by (simp add: r)
  have "\<bar>py_round x 2 - x\<bar> = \<bar>of_int ?k - x * 100\<bar> / 100"
    by (simp add: r field_simps abs_divide)
  also have "\<dots> \<le> (1 / 2) / 100"
    using near by (simp add: divide_right_mono)
  finally have "\<bar>py_round x 2 - x\<bar> \<le> 1 / 200" by simp
  with whole show ?thesis by (simp add: rounded_2_decimals_def)
qed

subsection \<open>Body mass index\<close>









subsection \<open>Daily calories\<close>

lemma activity_multiplier_get:
  "(case map_of activity_multiplier level of Some m \<Rightarrow> m | None \<Rightarrow> 1.2)
     = activity_coefficient_spec level"
  by (simp add: activity_multiplier_def activity_coefficient_spec_def SEDENTARY_def
      LIGHTLY_ACTIVE_def MODERATELY_ACTIVE_def VERY_ACTIVE_def EXTREMELY_ACTIVE_def)

lemma calculate_daily_calories_present:
  "User.age u = Some a \<Longrightarrow> a \<noteq> 0 \<Longrightarrow> User.weight u = Some w \<Longrightarrow> w \<noteq> 0 \<Longrightarrow>
   User.height u = Some h \<Longrightarrow> h \<noteq> 0 \<Longrightarrow>
   calculate_daily_calories u = dailyCalories_spec a w h (User.activity_level u)"
  by (simp add: calculate_daily_calories_def truthy_def dailyCalories_spec_def Let_def
      activity_multiplier_get)

lemma calculate_daily_calories_fallback:
  "User.age u = None \<or> User.age u = Some 0 \<or> User.weight u = None \<or> User.weight u = Some 0
   \<or> User.height u = None \<or> User.height u = Some 0 \<Longrightarrow>
   calculate_daily_calories u = 2000"
  by (auto simp: calculate_daily_calories_def truthy_def split: option.splits)

lemma example_user_calories: "calculate_daily_calories example_user = 2594"
  by code_simp

text \<open>
  Claim C1, as amended. For an account whose age, weight and height are all present and
  nonzero, \<open>calculate_daily_calories\<close> returns
  \<open>int((10*weight + 6.25*height - 5*age + 5) * m)\<close> with \<open>m\<close> the coefficient of the activity
  level and 1.2 for a level that is not recognised; where one of the three is missing or
  zero it returns 2000. For age 25, weight 70, height 175 and \<open>moderately_active\<close> the
  formula gives \<open>int(1673.75 * 1.55) = 2594\<close>.
\<close>

theorem daily_calories_formula:
  "(User.age u = Some a \<and> a \<noteq> 0 \<and> User.weight u = Some w \<and> w \<noteq> 0
      \<and> User.height u = Some h \<and> h \<noteq> 0 \<longrightarrow>
      calculate_daily_calories u = dailyCalories_spec a w h (User.activity_level u))
   \<and> (User.age u = None \<or> User.age u = Some 0 \<or> User.weight u = None
      \<or> User.weight u = Some 0 \<or> User.height u = None \<or> User.height u = Some 0 \<longrightarrow>
      calculate_daily_calories u = 2000)
   \<and> calculate_daily_calories example_user = 2594"
  using calculate_daily_calories_present [of u a w h] calculate_daily_calories_fallback [of u]
    example_user_calories by blast

theorem daily_calories_formula_witness:
  "calculate_daily_calories example_user
     = dailyCalories_spec 25 70 175 ''moderately_active''
   \<and> dailyCalories_spec 25 70 175 ''moderately_active'' = 2594
   \<and> calculate_daily_calories (example_user\<lparr>User.age := Some 0\<rparr>) = 2000
   \<and> calculate_daily_calories (example_user\<lparr>User.height := None\<rparr>) = 2000"
proof -
  have a: "User.age example_user = Some 25 \<and> (25::int) \<noteq> 0
         \<and> User.weight example_user = Some 70 \<and> (70::pyfloat) \<noteq> 0
         \<and> User.height example_user = Some 175 \<and> (175::pyfloat) \<noteq> 0"
    by (simp add: example_user_def)
  have l: "User.activity_level example_user = ''moderately_active''"
    by (simp add: example_user_def MODERATELY_ACTIVE_def)
  show ?thesis
    using a l daily_calories_formula [of example_user 25 70 175]
      daily_calories_formula [of "example_user\<lparr>User.age := Some 0\<rparr>" 25 70 175]
      daily_calories_formula [of "example_user\<lparr>User.height := None\<rparr>" 25 70 175]
    by simp
qed

text \<open>
  The worked example of the specification, 2607, is not what the formula gives: the
  bracket is \<open>700 + 1093.75 - 125 + 5 = 1673.75\<close>, not 1682.5.
\<close>

theorem daily_calories_example_counterexample:
  "User.age example_user = Some 25 \<and> User.weight example_user = Some 70
   \<and> User.height example_user = Some 175
   \<and> User.activity_level example_user = ''moderately_active''
   \<and> calculate_daily_calories example_user \<noteq> 2607
   \<and> py_int ((10 * 70 + 6.25 * 175 - 5 * 25 + 5) * 1.55) \<noteq> 2607"
  by code_simp

section \<open>Verification: credential manager\<close>

lemma verify_issued_token:
  "verify_jwt_token mac secret now (create_jwt_token mac secret utcnow uid)
     = (if utcnow + 24 * HOUR \<le> now then Inl (HTTPException 401 ''Token expired'')
        else Inr uid)"
  by (simp add: verify_jwt_token_def create_jwt_token_def jwt_encode_def jwt_decode_def
      Let_def)

lemma verify_bad_signature_or_shape:
  "\<not> signature_and_shape_ok mac secret tok \<Longrightarrow>
   verify_jwt_token mac secret now tok = Inl (HTTPException 401 ''Invalid token'')"
  by (cases tok)
     (auto simp: signature_and_shape_ok_def verify_jwt_token_def jwt_decode_def)

lemma verify_past_expiry:
  "signature_and_shape_ok mac secret (Signed alg payload sg) \<Longrightarrow>
   jwt_exp payload = Some e \<Longrightarrow> e < now \<Longrightarrow>
   verify_jwt_token mac secret now (Signed alg payload sg)
     = Inl (HTTPException 401 ''Token expired'')"
  by (simp add: signature_and_shape_ok_def verify_jwt_token_def jwt_decode_def)

text \<open>
  Claim C2. For every account id, a token issued for it at time \<open>utcnow\<close> and verified at
  any time before 24 hours have elapsed, in particular immediately, verifies and gives
  back exactly that id: \<open>verifyToken(issueToken(id)) = id\<close>.
\<close>

theorem token_round_trip:
  "now < utcnow + 24 * HOUR \<Longrightarrow>
   verify_jwt_token mac secret now (create_jwt_token mac secret utcnow uid) = Inr uid"
  by (simp add: verify_issued_token)

theorem token_round_trip_witness:
  "(1000::datetime) < 1000 + 24 * HOUR
   \<and> verify_jwt_token example_mac ''secret'' 1000
        (create_jwt_token example_mac ''secret'' 1000 ''account-1'') = Inr ''account-1''"
proof -
  have h: "(1000::datetime) < 1000 + 24 * HOUR" by (simp add: HOUR_def)
  from token_round_trip [OF h] h show ?thesis by blast
qed

text \<open>
  Claim C3. Verification fails closed. Once the clock is past the issuance time plus 24
  hours, verifying an issued token raises the 401 "Token expired"; so does any
  well-signed token whose expiry is past. A token whose shape, algorithm or signature
  check fails, as that of a mutated token does, raises the 401 "Invalid token". In
  neither case is an account id returned.
\<close>

theorem token_verification_fails_closed:
  "(utcnow + 24 * HOUR < now \<longrightarrow>
      verify_jwt_token mac secret now (create_jwt_token mac secret utcnow uid)
        = Inl (HTTPException 401 ''Token expired''))
   \<and> (signature_and_shape_ok mac secret (Signed alg payload sg)
        \<and> jwt_exp payload = Some e \<and> e < now \<longrightarrow>
      verify_jwt_token mac secret now (Signed alg payload sg)
        = Inl (HTTPException 401 ''Token expired''))
   \<and> (\<not> signature_and_shape_ok mac secret tok \<longrightarrow>
      verify_jwt_token mac secret now tok = Inl (HTTPException 401 ''Invalid token''))"
  using verify_issued_token [of mac secret now utcnow uid]
    verify_past_expiry [of mac secret alg payload sg e now]
    verify_bad_signature_or_shape [of mac secret tok now]
  by simp

theorem token_verification_fails_closed_witness:
  "(1000::datetime) + 24 * HOUR < 1001 + 24 * HOUR
   \<and> verify_jwt_token example_mac ''secret'' (1001 + 24 * HOUR)
        (create_jwt_token example_mac ''secret'' 1000 ''account-1'')
        = Inl (HTTPException 401 ''Token expired'')
   \<and> create_jwt_token example_mac ''secret'' 1000 ''account-1''
        = Signed ''HS256'' issued_payload (example_mac ''secret'' ''HS256'' issued_payload)
   \<and> \<not> signature_and_shape_ok example_mac ''secret'' mutated_token
   \<and> verify_jwt_token example_mac ''secret'' 1000 mutated_token
        = Inl (HTTPException 401 ''Invalid token'')
   \<and> \<not> signature_and_shape_ok example_mac ''secret''
         (Malformed :: (string \<times> string \<times> jwt_payload) token)
   \<and> verify_jwt_token example_mac ''secret'' 1000 Malformed
        = Inl (HTTPException 401 ''Invalid token'')"
proof -
  have h1: "(1000::datetime) + 24 * HOUR < 1001 + 24 * HOUR" by simp
  have h2: "\<not> signature_and_shape_ok example_mac ''secret'' mutated_token"
    by (simp add: signature_and_shape_ok_def mutated_token_def example_mac_def
        issued_payload_def)
  have h3: "\<not> signature_and_shape_ok example_mac ''secret''
              (Malformed :: (string \<times> string \<times> jwt_payload) token)"
    by (simp add: signature_and_shape_ok_def)
  have h4: "create_jwt_token example_mac ''secret'' 1000 ''account-1''
        = Signed ''HS256'' issued_payload (example_mac ''secret'' ''HS256'' issued_payload)"
    by (simp add: create_jwt_token_def jwt_encode_def issued_payload_def JWT_ALGORITHM_def
        Let_def)
  show ?thesis
    using h1 h2 h3 h4
      token_verification_fails_closed [of 1000 "1001 + 24 * HOUR" example_mac "''secret''"
        "''account-1''" "''HS256''" issued_payload
        "example_mac ''secret'' ''HS256'' issued_payload" "1000 + 24 * HOUR" mutated_token]
      token_verification_fails_closed [of 1000 1000 example_mac "''secret''"
        "''account-1''" "''HS256''" issued_payload
        "example_mac ''secret'' ''HS256'' issued_payload" "1000 + 24 * HOUR" mutated_token]
      token_verification_fails_closed [of 1000 1000 example_mac "''secret''"
        "''account-1''" "''HS256''" issued_payload
        "example_mac ''secret'' ''HS256'' issued_payload" "1000 + 24 * HOUR" Malformed]
    by simp
qed

section \<open>Verification: logging\<close>

lemma log_meal_cases:
  "log_meal uuid utcnow db md uid = (Inr entry, db') \<Longrightarrow>
   \<exists>food. find_one (\<lambda>item. FoodItem.id item = MealEntryCreate.food_item_id md) (food_items db)
             = Some food
     \<and> entry = \<lparr>MealEntry.id = uuid, MealEntry.user_id = uid,
                 MealEntry.food_item_id = MealEntryCreate.food_item_id md,
                 MealEntry.food_name = FoodItem.name food,
                 MealEntry.quantity = MealEntryCreate.quantity md,
                 MealEntry.calories =
                   py_round (scaleNutrition_spec (calories_per_100g food) (MealEntryCreate.quantity md)) 2,
                 MealEntry.protein =
                   py_round (scaleNutrition_spec (protein_per_100g food) (MealEntryCreate.quantity md)) 2,
                 MealEntry.carbs =
                   py_round (scaleNutrition_spec (carbs_per_100g food) (MealEntryCreate.quantity md)) 2,
                 MealEntry.fat =
                   py_round (scaleNutrition_spec (fat_per_100g food) (MealEntryCreate.quantity md)) 2,
                 MealEntry.meal_type = MealEntryCreate.meal_type md,
                 MealEntry.logged_at = utcnow 0\<rparr>
     \<and> db' = db\<lparr>meal_entries := meal_entries db @ [entry]\<rparr>"
  by (auto simp: log_meal_def Let_def insert_one_def scaleNutrition_spec_def
      split: option.splits)

lemma log_workout_cases:
  "log_workout uuid utcnow db wd uid = (Inr entry, db') \<Longrightarrow>
   \<exists>ex. find_one (\<lambda>doc. Exercise.id doc = WorkoutEntryCreate.exercise_id wd) (exercises db)
             = Some ex
     \<and> WorkoutEntry.duration entry = WorkoutEntryCreate.duration wd
     \<and> WorkoutEntry.calories_burned entry =
          py_round (calorieBurn_spec (calories_per_minute ex) (WorkoutEntryCreate.duration wd)) 2
     \<and> db' = db\<lparr>workout_entries := workout_entries db @ [entry]\<rparr>"
  by (auto simp: log_workout_def Let_def insert_one_def calorieBurn_spec_def
      split: option.splits)

lemma log_meal_error:
  "log_meal uuid utcnow db md uid = (Inl e, db') \<Longrightarrow> db' = db"
  by (auto simp: log_meal_def Let_def split: option.splits)

lemma log_workout_error:
  "log_workout uuid utcnow db wd uid = (Inl e, db') \<Longrightarrow> db' = db"
  by (auto simp: log_workout_def Let_def split: option.splits)

lemma log_meal_seed:
  "log_meal ''meal-1'' example_clock seed_db (meal_request q) ''account-1''
     = (Inr \<lparr>MealEntry.id = ''meal-1'', MealEntry.user_id = ''account-1'',
             MealEntry.food_item_id = ''food-1'', MealEntry.food_name = ''Chicken Breast'',
             MealEntry.quantity = q,
             MealEntry.calories = py_round (165 * (q / 100)) 2,
             MealEntry.protein = py_round (31 * (q / 100)) 2,
             MealEntry.carbs = py_round (0 * (q / 100)) 2,
             MealEntry.fat = py_round (3.6 * (q / 100)) 2,
             MealEntry.meal_type = ''lunch'', MealEntry.logged_at = 5000\<rparr>,
        seed_db\<lparr>meal_entries :=
          [\<lparr>MealEntry.id = ''meal-1'', MealEntry.user_id = ''account-1'',
             MealEntry.food_item_id = ''food-1'', MealEntry.food_name = ''Chicken Breast'',
             MealEntry.quantity = q,
             MealEntry.calories = py_round (165 * (q / 100)) 2,
             MealEntry.protein = py_round (31 * (q / 100)) 2,
             MealEntry.carbs = py_round (0 * (q / 100)) 2,
             MealEntry.fat = py_round (3.6 * (q / 100)) 2,
             MealEntry.meal_type = ''lunch'', MealEntry.logged_at = 5000\<rparr>]\<rparr>)"
  by (simp add: log_meal_def seed_db_def meal_request_def chicken_breast_def find_one_def
      insert_one_def example_clock_def Let_def)

lemma py_round_examples:
  "py_round (165 * (150 / 100)) 2 = 247.5" "py_round (8.0 * of_int 30) 2 = 240"
  by code_simp+

lemma log_workout_seed:
  "log_workout ''workout-1'' example_clock seed_db (workout_request d) ''account-1''
     = (Inr \<lparr>WorkoutEntry.id = ''workout-1'', WorkoutEntry.user_id = ''account-1'',
             WorkoutEntry.exercise_id = ''exercise-1'',
             WorkoutEntry.exercise_name = ''Push-ups'',
             WorkoutEntry.duration = d,
             WorkoutEntry.calories_burned = py_round (8.0 * of_int d) 2,
             WorkoutEntry.sets = Some 3, WorkoutEntry.reps = Some 15,
             WorkoutEntry.weight = None, WorkoutEntry.notes' = None,
             WorkoutEntry.completed_at = 5000\<rparr>,
        seed_db\<lparr>workout_entries :=
          [\<lparr>WorkoutEntry.id = ''workout-1'', WorkoutEntry.user_id = ''account-1'',
             WorkoutEntry.exercise_id = ''exercise-1'',
             WorkoutEntry.exercise_name = ''Push-ups'',
             WorkoutEntry.duration = d,
             WorkoutEntry.calories_burned = py_round (8.0 * of_int d) 2,
             WorkoutEntry.sets = Some 3, WorkoutEntry.reps = Some 15,
             WorkoutEntry.weight = None, WorkoutEntry.notes' = None,
             WorkoutEntry.completed_at = 5000\<rparr>]\<rparr>)"
  by (simp add: log_workout_def seed_db_def workout_request_def push_ups_def find_one_def
      insert_one_def example_clock_def Let_def)

lemma py_round_seed_values:
  "py_round (165 * (150 / 100)) 2 = 247.5"
  "py_round (31 * (150 / 100)) 2 = 46.5"
  "py_round (0 * (150 / 100)) 2 = 0"
  "py_round (3.6 * (150 / 100)) 2 = 5.4"
  "py_round (8.0 * of_int 30) 2 = 240"
  by code_simp+

lemma log_meal_seed_150:
  "log_meal ''meal-1'' example_clock seed_db (meal_request 150) ''account-1''
     = (Inr meal_150, seed_db\<lparr>meal_entries := [meal_150]\<rparr>)"
  unfolding log_meal_seed meal_150_def py_round_seed_values ..

lemma log_workout_seed_30:
  "log_workout ''workout-1'' example_clock seed_db (workout_request 30) ''account-1''
     = (Inr workout_30, seed_db\<lparr>workout_entries := [workout_30]\<rparr>)"
  unfolding log_workout_seed workout_30_def py_round_seed_values ..

lemma find_seed_food:
  "find_one (\<lambda>item. FoodItem.id item = MealEntryCreate.food_item_id (meal_request q))
     (food_items seed_db) = Some chicken_breast"
  by (simp add: find_one_def seed_db_def meal_request_def chicken_breast_def)

lemma find_seed_exercise:
  "find_one (\<lambda>doc. Exercise.id doc = WorkoutEntryCreate.exercise_id (workout_request d))
     (exercises seed_db) = Some push_ups"
  by (simp add: find_one_def seed_db_def workout_request_def push_ups_def)

lemma log_meal_derived:
  assumes "log_meal uuid utcnow db md uid = (Inr entry, db')"
  shows "\<exists>food. find_one (\<lambda>item. FoodItem.id item = MealEntryCreate.food_item_id md)
                 (food_items db) = Some food
         \<and> rounded_2_decimals
             (scaleNutrition_spec (calories_per_100g food) (MealEntryCreate.quantity md))
             (MealEntry.calories entry)
         \<and> rounded_2_decimals
             (scaleNutrition_spec (protein_per_100g food) (MealEntryCreate.quantity md))
             (MealEntry.protein entry)
         \<and> rounded_2_decimals
             (scaleNutrition_spec (carbs_per_100g food) (MealEntryCreate.quantity md))
             (MealEntry.carbs entry)
         \<and> rounded_2_decimals
             (scaleNutrition_spec (fat_per_100g food) (MealEntryCreate.quantity md))
             (MealEntry.fat entry)
         \<and> meal_entries db' = meal_entries db @ [entry]"
  using log_meal_cases [OF assms] by (auto simp: py_round_2_rounded)

lemma log_workout_derived:
  assumes "log_workout uuid utcnow db wd uid = (Inr entry, db')"
  shows "\<exists>ex. find_one (\<lambda>doc. Exercise.id doc = WorkoutEntryCreate.exercise_id wd)
               (exercises db) = Some ex
         \<and> rounded_2_decimals
             (calorieBurn_spec (calories_per_minute ex) (WorkoutEntryCreate.duration wd))
             (WorkoutEntry.calories_burned entry)
         \<and> workout_entries db' = workout_entries db @ [entry]"
  using log_workout_cases [OF assms] by (auto simp: py_round_2_rounded)

text \<open>
  Claim C4. For every successful log operation the derived fields stored in the created
  entry are the catalog rate scaled by the logged amount, each rounded to 2 decimals: the
  calories, protein, carbs and fat of a meal entry are the food item's density per 100 g
  times quantity/100, and the calories burned of a workout entry are the exercise's rate
  per minute times the duration. A density of 165 at a quantity of 150 gives 247.5, a
  rate of 8.0 over 30 minutes gives 240.0.
\<close>

theorem derived_fields_scaled_and_rounded:
  "(log_meal uuid utcnow db md uid = (Inr entry, db') \<longrightarrow>
      (\<exists>food. find_one (\<lambda>item. FoodItem.id item = MealEntryCreate.food_item_id md)
                 (food_items db) = Some food
         \<and> rounded_2_decimals
             (scaleNutrition_spec (calories_per_100g food) (MealEntryCreate.quantity md))
             (MealEntry.calories entry)
         \<and> rounded_2_decimals
             (scaleNutrition_spec (protein_per_100g food) (MealEntryCreate.quantity md))
             (MealEntry.protein entry)
         \<and> rounded_2_decimals
             (scaleNutrition_spec (carbs_per_100g food) (MealEntryCreate.quantity md))
             (MealEntry.carbs entry)
         \<and> rounded_2_decimals
             (scaleNutrition_spec (fat_per_100g food) (MealEntryCreate.quantity md))
             (MealEntry.fat entry)
         \<and> meal_entries db' = meal_entries db @ [entry]))
   \<and> (log_workout uuid' utcnow' db wd uid' = (Inr wentry, db'') \<longrightarrow>
      (\<exists>ex. find_one (\<lambda>doc. Exercise.id doc = WorkoutEntryCreate.exercise_id wd)
               (exercises db) = Some ex
         \<and> rounded_2_decimals
             (calorieBurn_spec (calories_per_minute ex) (WorkoutEntryCreate.duration wd))
             (WorkoutEntry.calories_burned wentry)
         \<and> workout_entries db'' = workout_entries db @ [wentry]))
   \<and> py_round (scaleNutrition_spec 165 150) 2 = 247.5
   \<and> py_round (calorieBurn_spec 8.0 30) 2 = 240.0"
proof -
  have "py_round (scaleNutrition_spec 165 150) 2 = 247.5"
    and "py_round (calorieBurn_spec 8.0 30) 2 = 240.0"
    by code_simp+
  then show ?thesis
    using log_meal_derived [of uuid utcnow db md uid entry db']
      log_workout_derived [of uuid' utcnow' db wd uid' wentry db'']
    by blast
qed

theorem derived_fields_scaled_and_rounded_witness:
  "log_meal ''meal-1'' example_clock seed_db (meal_request 150) ''account-1''
     = (Inr meal_150, seed_db\<lparr>meal_entries := [meal_150]\<rparr>)
   \<and> rounded_2_decimals (scaleNutrition_spec 165 150) (MealEntry.calories meal_150)
   \<and> MealEntry.calories meal_150 = 247.5
   \<and> log_workout ''workout-1'' example_clock seed_db (workout_request 30) ''account-1''
     = (Inr workout_30, seed_db\<lparr>workout_entries := [workout_30]\<rparr>)
   \<and> rounded_2_decimals (calorieBurn_spec 8.0 30) (WorkoutEntry.calories_burned workout_30)
   \<and> WorkoutEntry.calories_burned workout_30 = 240.0"
proof -
  note inst = derived_fields_scaled_and_rounded
    [of "''meal-1''" example_clock seed_db "meal_request 150" "''account-1''" meal_150
        "seed_db\<lparr>meal_entries := [meal_150]\<rparr>"
        "''workout-1''" example_clock "workout_request 30" "''account-1''" workout_30
        "seed_db\<lparr>workout_entries := [workout_30]\<rparr>"]
  from inst log_meal_seed_150 obtain food where
    f: "find_one (\<lambda>item. FoodItem.id item = MealEntryCreate.food_item_id (meal_request 150))
       (food_items seed_db) = Some food"
    and r: "rounded_2_decimals
           (scaleNutrition_spec (calories_per_100g food) (MealEntryCreate.quantity (meal_request 150)))
           (MealEntry.calories meal_150)"
    by blast
  from f have "food = chicken_breast" by (simp add: find_seed_food)
  with r have m: "rounded_2_decimals (scaleNutrition_spec 165 150) (MealEntry.calories meal_150)"
    by (simp add: chicken_breast_def meal_request_def)
  from inst log_workout_seed_30 obtain ex where
    g: "find_one (\<lambda>doc. Exercise.id doc = WorkoutEntryCreate.exercise_id (workout_request 30))
       (exercises seed_db) = Some ex"
    and q: "rounded_2_decimals
           (calorieBurn_spec (calories_per_minute ex) (WorkoutEntryCreate.duration (workout_request 30)))
           (WorkoutEntry.calories_burned workout_30)"
    by blast
  from g have "ex = push_ups" by (simp add: find_seed_exercise)
  with q have w: "rounded_2_decimals (calorieBurn_spec 8.0 30)
                  (WorkoutEntry.calories_burned workout_30)"
    by (simp add: push_ups_def workout_request_def)
  show ?thesis
    using m w log_meal_seed_150 log_workout_seed_30
    by (simp add: meal_150_def workout_30_def)
qed

subsection \<open>Quantities and durations\<close>

lemma log_meal_stores:
  assumes "log_meal uuid utcnow db md uid = (res, db')"
  shows "(case res of
            Inl e \<Rightarrow> db' = db
          | Inr entry \<Rightarrow> meal_entries db' = meal_entries db @ [entry]
                        \<and> MealEntry.quantity entry = MealEntryCreate.quantity md)"
proof (cases res)
  case (Inl e)
  with assms show ?thesis by (simp add: log_meal_error)
next
  case (Inr entry)
  with assms have "log_meal uuid utcnow db md uid = (Inr entry, db')" by simp
  from log_meal_cases [OF this] Inr show ?thesis by auto
qed

lemma log_workout_stores:
  assumes "log_workout uuid utcnow db wd uid = (res, db')"
  shows "(case res of
            Inl e \<Rightarrow> db' = db
          | Inr entry \<Rightarrow> workout_entries db' = workout_entries db @ [entry]
                        \<and> WorkoutEntry.duration entry = WorkoutEntryCreate.duration wd)"
proof (cases res)
  case (Inl e)
  with assms show ?thesis by (simp add: log_workout_error)
next
  case (Inr entry)
  with assms have "log_workout uuid utcnow db wd uid = (Inr entry, db')" by simp
  from log_workout_cases [OF this] Inr show ?thesis by auto
qed

lemma log_meal_keeps_positive:
  assumes "log_meal uuid utcnow db md uid = (res, db')"
    and "\<forall>e \<in> set (meal_entries db). 0 < MealEntry.quantity e"
    and "0 < MealEntryCreate.quantity md"
  shows "\<forall>e \<in> set (meal_entries db'). 0 < MealEntry.quantity e"
  using log_meal_stores [OF assms(1)] assms(2,3) by (cases res) auto

lemma log_workout_keeps_positive:
  assumes "log_workout uuid utcnow db wd uid = (res, db')"
    and "\<forall>e \<in> set (workout_entries db). 0 < WorkoutEntry.duration e"
    and "0 < WorkoutEntryCreate.duration wd"
  shows "\<forall>e \<in> set (workout_entries db'). 0 < WorkoutEntry.duration e"
  using log_workout_stores [OF assms(1)] assms(2,3) by (cases res) auto

text \<open>
  Claim C9, as amended. The log operations do not check the sign of the amount: a
  successful \<open>log_meal\<close> appends one entry that carries the requested quantity unchanged,
  a successful \<open>log_workout\<close> one entry with the requested duration, and a failed one
  leaves the store as it was. So the stored quantities (durations) stay positive as long
  as every request has a positive quantity (duration).
\<close>

theorem log_stores_requested_amount:
  "(log_meal uuid utcnow db md uid = (res, db') \<longrightarrow>
      (case res of
         Inl e \<Rightarrow> db' = db
       | Inr entry \<Rightarrow> meal_entries db' = meal_entries db @ [entry]
                     \<and> MealEntry.quantity entry = MealEntryCreate.quantity md)
      \<and> ((\<forall>e \<in> set (meal_entries db). 0 < MealEntry.quantity e)
           \<and> 0 < MealEntryCreate.quantity md \<longrightarrow>
         (\<forall>e \<in> set (meal_entries db'). 0 < MealEntry.quantity e)))
   \<and> (log_workout uuid' utcnow' db wd uid' = (wres, db'') \<longrightarrow>
      (case wres of
         Inl e \<Rightarrow> db'' = db
       | Inr entry \<Rightarrow> workout_entries db'' = workout_entries db @ [entry]
                     \<and> WorkoutEntry.duration entry = WorkoutEntryCreate.duration wd)
      \<and> ((\<forall>e \<in> set (workout_entries db). 0 < WorkoutEntry.duration e)
           \<and> 0 < WorkoutEntryCreate.duration wd \<longrightarrow>
         (\<forall>e \<in> set (workout_entries db''). 0 < WorkoutEntry.duration e)))"
  using log_meal_stores [of uuid utcnow db md uid res db']
    log_meal_keeps_positive [of uuid utcnow db md uid res db']
    log_workout_stores [of uuid' utcnow' db wd uid' wres db'']
    log_workout_keeps_positive [of uuid' utcnow' db wd uid' wres db'']
  by blast

lemma log_meal_logged:
  "log_meal ''meal-2'' example_clock logged_db (meal_request q) ''account-1''
     = (Inr (meal_150\<lparr>MealEntry.id := ''meal-2'', MealEntry.quantity := q,
                      MealEntry.calories := py_round (165 * (q / 100)) 2,
                      MealEntry.protein := py_round (31 * (q / 100)) 2,
                      MealEntry.carbs := py_round (0 * (q / 100)) 2,
                      MealEntry.fat := py_round (3.6 * (q / 100)) 2\<rparr>),
        logged_db\<lparr>meal_entries :=
          [meal_150,
           meal_150\<lparr>MealEntry.id := ''meal-2'', MealEntry.quantity := q,
                     MealEntry.calories := py_round (165 * (q / 100)) 2,
                     MealEntry.protein := py_round (31 * (q / 100)) 2,
                     MealEntry.carbs := py_round (0 * (q / 100)) 2,
                     MealEntry.fat := py_round (3.6 * (q / 100)) 2\<rparr>]\<rparr>)"
  by (simp add: log_meal_def logged_db_def seed_db_def meal_request_def chicken_breast_def
      find_one_def insert_one_def example_clock_def meal_150_def Let_def)

lemma log_workout_logged:
  "log_workout ''workout-2'' example_clock logged_db (workout_request d) ''account-1''
     = (Inr (workout_30\<lparr>WorkoutEntry.id := ''workout-2'', WorkoutEntry.duration := d,
                         WorkoutEntry.calories_burned := py_round (8.0 * of_int d) 2\<rparr>),
        logged_db\<lparr>workout_entries :=
          [workout_30,
           workout_30\<lparr>WorkoutEntry.id := ''workout-2'', WorkoutEntry.duration := d,
                        WorkoutEntry.calories_burned := py_round (8.0 * of_int d) 2\<rparr>]\<rparr>)"
  by (simp add: log_workout_def logged_db_def seed_db_def workout_request_def push_ups_def
      find_one_def insert_one_def example_clock_def workout_30_def Let_def)

theorem log_stores_requested_amount_witness:
  "map MealEntry.quantity (meal_entries logged_db) = [150]
   \<and> 0 < MealEntryCreate.quantity (meal_request 200)
   \<and> \<not> isl (fst (log_meal ''meal-2'' example_clock logged_db (meal_request 200)
                    ''account-1''))
   \<and> map MealEntry.quantity
        (meal_entries (snd (log_meal ''meal-2'' example_clock logged_db (meal_request 200)
                              ''account-1''))) = [150, 200]
   \<and> list_all (\<lambda>e. 0 < MealEntry.quantity e)
        (meal_entries (snd (log_meal ''meal-2'' example_clock logged_db (meal_request 200)
                              ''account-1'')))
   \<and> map WorkoutEntry.duration (workout_entries logged_db) = [30]
   \<and> 0 < WorkoutEntryCreate.duration (workout_request 45)
   \<and> \<not> isl (fst (log_workout ''workout-2'' example_clock logged_db (workout_request 45)
                    ''account-1''))
   \<and> map WorkoutEntry.duration
        (workout_entries (snd (log_workout ''workout-2'' example_clock logged_db
                                 (workout_request 45) ''account-1''))) = [30, 45]
   \<and> list_all (\<lambda>e. 0 < WorkoutEntry.duration e)
        (workout_entries (snd (log_workout ''workout-2'' example_clock logged_db
                                 (workout_request 45) ''account-1'')))"
proof -
  let ?m = "log_meal ''meal-2'' example_clock logged_db (meal_request 200) ''account-1''"
  let ?w = "log_workout ''workout-2'' example_clock logged_db (workout_request 45) ''account-1''"
  have m0: "map MealEntry.quantity (meal_entries logged_db) = [150]"
    by (simp add: logged_db_def meal_150_def)
  have m1: "\<forall>e \<in> set (meal_entries logged_db). 0 < MealEntry.quantity e"
    by (simp add: logged_db_def meal_150_def)
  have m2: "0 < MealEntryCreate.quantity (meal_request 200)"
    by (simp add: meal_request_def)
  have w0: "map WorkoutEntry.duration (workout_entries logged_db) = [30]"
    by (simp add: logged_db_def workout_30_def)
  have w1: "\<forall>e \<in> set (workout_entries logged_db). 0 < WorkoutEntry.duration e"
    by (simp add: logged_db_def workout_30_def)
  have w2: "0 < WorkoutEntryCreate.duration (workout_request 45)"
    by (simp add: workout_request_def)
  obtain entry where fm: "fst ?m = Inr entry"
    by (simp add: log_meal_logged)
  obtain wentry where fw: "fst ?w = Inr wentry"
    by (simp add: log_workout_logged)
  note inst = log_stores_requested_amount
    [of "''meal-2''" example_clock logged_db "meal_request 200" "''account-1''"
        "fst ?m" "snd ?m"
        "''workout-2''" example_clock "workout_request 45" "''account-1''"
        "fst ?w" "snd ?w"]
  from inst have
    "(case fst ?m of
        Inl e \<Rightarrow> snd ?m = logged_db
      | Inr entry \<Rightarrow> meal_entries (snd ?m) = meal_entries logged_db @ [entry]
                    \<and> MealEntry.quantity entry = MealEntryCreate.quantity (meal_request 200))"
    by simp
  with fm have "meal_entries (snd ?m) = meal_entries logged_db @ [entry]
      \<and> MealEntry.quantity entry = MealEntryCreate.quantity (meal_request 200)"
    by simp
  then have m3: "meal_entries (snd ?m) = meal_entries logged_db @ [entry]"
    and m4: "MealEntry.quantity entry = MealEntryCreate.quantity (meal_request 200)"
    by blast+
  from inst m1 m2 have m5: "\<forall>e \<in> set (meal_entries (snd ?m)). 0 < MealEntry.quantity e"
    by simp
  from inst have
    "(case fst ?w of
        Inl e \<Rightarrow> snd ?w = logged_db
      | Inr entry \<Rightarrow> workout_entries (snd ?w) = workout_entries logged_db @ [entry]
                    \<and> WorkoutEntry.duration entry
                        = WorkoutEntryCreate.duration (workout_request 45))"
    by simp
  with fw have "workout_entries (snd ?w) = workout_entries logged_db @ [wentry]
      \<and> WorkoutEntry.duration wentry = WorkoutEntryCreate.duration (workout_request 45)"
    by simp
  then have w3: "workout_entries (snd ?w) = workout_entries logged_db @ [wentry]"
    and w4: "WorkoutEntry.duration wentry = WorkoutEntryCreate.duration (workout_request 45)"
    by blast+
  from inst w1 w2 have w5: "\<forall>e \<in> set (workout_entries (snd ?w)). 0 < WorkoutEntry.duration e"
    by simp
  have q: "MealEntryCreate.quantity (meal_request 200) = 200"
    and d: "WorkoutEntryCreate.duration (workout_request 45) = 45"
    by (simp_all add: meal_request_def workout_request_def)
  have m6: "map MealEntry.quantity (meal_entries (snd ?m)) = [150, 200]"
    by (simp add: m3 m4 m0 q)
  have w6: "map WorkoutEntry.duration (workout_entries (snd ?w)) = [30, 45]"
    by (simp add: w3 w4 w0 d)
  from m5 have m7: "list_all (\<lambda>e. 0 < MealEntry.quantity e) (meal_entries (snd ?m))"
    by (simp add: list_all_iff)
  from w5 have w7: "list_all (\<lambda>e. 0 < WorkoutEntry.duration e) (workout_entries (snd ?w))"
    by (simp add: list_all_iff)
  from fm have m8: "\<not> isl (fst ?m)" by simp
  from fw have w8: "\<not> isl (fst ?w)" by simp
  from m0 m2 m8 m6 m7 w0 w2 w8 w6 w7 show ?thesis by blast
qed

text \<open>
  A request with quantity \<open>-50\<close> and one with duration 0 are both accepted, and the
  entries they create are stored with these amounts.
\<close>

theorem log_nonpositive_amount_counterexample:
  "map MealEntry.quantity
     (meal_entries (snd (log_meal ''meal-1'' example_clock seed_db (meal_request (- 50))
                           ''account-1''))) = [- 50]
   \<and> \<not> isl (fst (log_meal ''meal-1'' example_clock seed_db (meal_request (- 50))
                    ''account-1''))
   \<and> map WorkoutEntry.duration
       (workout_entries (snd (log_workout ''workout-1'' example_clock seed_db
                                (workout_request 0) ''account-1''))) = [0]
   \<and> \<not> isl (fst (log_workout ''workout-1'' example_clock seed_db (workout_request 0)
                    ''account-1''))"
  by (simp add: log_meal_seed log_workout_seed)

section \<open>Verification: registration\<close>

lemma find_one_None_iff: "find_one q coll = None \<longleftrightarrow> \<not> (\<exists>doc \<in> set coll. q doc)"
  by (auto simp: find_one_def find_None_iff)

lemma register_user_conflict:
  assumes "\<exists>doc \<in> set (users db). User.username doc = UserCreate.username req
                                   \<or> User.email doc = UserCreate.email req"
  shows "register_user hashpw mac secret uuid salt utcnow db req
           = (Inl (HTTPException 400 ''Username or email already exists''), db)"
proof -
  from assms have "find_one (\<lambda>doc. User.username doc = UserCreate.username req
                                  \<or> User.email doc = UserCreate.email req) (users db) \<noteq> None"
    by (simp add: find_one_None_iff)
  then show ?thesis
    by (auto simp: register_user_def)
qed

lemma register_user_inserts:
  assumes "register_user hashpw mac secret uuid salt utcnow db req = (res, db')"
    and "res \<noteq> Inl (HTTPException 400 ''Username or email already exists'')"
  shows "\<exists>doc \<in> set (users db'). User.username doc = UserCreate.username req
                                 \<and> User.email doc = UserCreate.email req"
  using assms
  by (auto simp: register_user_def Let_def insert_one_def User.defs UserDoc.defs
      split: option.splits sum.splits)

text \<open>
  Claim C8. A registration whose username or email is that of an account already in the
  store fails with the 400 "Username or email already exists" and leaves the store as
  it was. In particular, once a registration has succeeded, every later registration
  with the same username or the same email fails so, whatever its other fields, its
  identifier, its salt and the time are.
\<close>

theorem duplicate_registration_rejected:
  "((\<exists>doc \<in> set (users db). User.username doc = UserCreate.username req
                             \<or> User.email doc = UserCreate.email req) \<longrightarrow>
      register_user hashpw mac secret uuid salt utcnow db req
        = (Inl (HTTPException 400 ''Username or email already exists''), db))
   \<and> (register_user hashpw1 mac1 secret1 uuid1 salt1 utcnow1 db0 first = (Inr response, db1)
        \<and> (UserCreate.username second = UserCreate.username first
             \<or> UserCreate.email second = UserCreate.email first) \<longrightarrow>
      register_user hashpw mac secret uuid salt utcnow db1 second
        = (Inl (HTTPException 400 ''Username or email already exists''), db1))"
proof (intro conjI impI)
  assume "\<exists>doc \<in> set (users db). User.username doc = UserCreate.username req
                                 \<or> User.email doc = UserCreate.email req"
  then show "register_user hashpw mac secret uuid salt utcnow db req
        = (Inl (HTTPException 400 ''Username or email already exists''), db)"
    by (rule register_user_conflict)
next
  assume a: "register_user hashpw1 mac1 secret1 uuid1 salt1 utcnow1 db0 first = (Inr response, db1)
        \<and> (UserCreate.username second = UserCreate.username first
             \<or> UserCreate.email second = UserCreate.email first)"
  then have "\<exists>doc \<in> set (users db1). User.username doc = UserCreate.username first
                                 \<and> User.email doc = UserCreate.email first"
    using register_user_inserts [of hashpw1 mac1 secret1 uuid1 salt1 utcnow1 db0 first
        "Inr response" db1]
    by simp
  with a have "\<exists>doc \<in> set (users db1). User.username doc = UserCreate.username second
                                 \<or> User.email doc = UserCreate.email second"
    by auto
  then show "register_user hashpw mac secret uuid salt utcnow db1 second
        = (Inl (HTTPException 400 ''Username or email already exists''), db1)"
    by (rule register_user_conflict)
qed

lemma register_alice:
  "register_user example_hashpw example_mac ''secret'' ''account-1'' ''salt'' example_clock
     seed_db alice_request
   = (Inr (create_jwt_token example_mac ''secret'' 5002 ''account-1'', alice_profile),
      alice_db)"
proof -
  have b: "calculate_bmi 70 175 = Inr 22.86" by code_simp
  have c: "calculate_daily_calories
             \<lparr>User.id = ''account-1'', User.username = ''alice'',
              User.email = ''alice@example.com'', User.full_name = ''Alice'',
              User.age = Some 25, User.height = Some 175, User.weight = Some 70,
              User.goal_type = MAINTENANCE, User.activity_level = MODERATELY_ACTIVE,
              User.created_at = 5000, User.updated_at = 5001\<rparr> = 2594"
    by code_simp
  show ?thesis
    by (simp add: register_user_def seed_db_def alice_request_def find_one_def Let_def
        hash_password_def example_hashpw_def example_clock_def insert_one_def
        user_profile_def b c alice_profile_def alice_db_def alice_doc_def
        User.defs UserDoc.defs)
qed

theorem duplicate_registration_rejected_witness:
  "register_user example_hashpw example_mac ''secret'' ''account-1'' ''salt'' example_clock
     seed_db alice_request
   = (Inr (create_jwt_token example_mac ''secret'' 5002 ''account-1'', alice_profile),
      alice_db)
   \<and> (UserCreate.username same_username_request = UserCreate.username alice_request
        \<or> UserCreate.email same_username_request = UserCreate.email alice_request)
   \<and> register_user example_hashpw example_mac ''secret'' ''account-2'' ''pepper''
        example_clock alice_db same_username_request
      = (Inl (HTTPException 400 ''Username or email already exists''), alice_db)
   \<and> (\<exists>doc \<in> set (users alice_db).
         User.username doc = UserCreate.username same_email_request
         \<or> User.email doc = UserCreate.email same_email_request)
   \<and> register_user example_hashpw example_mac ''secret'' ''account-3'' ''pepper''
        example_clock alice_db same_email_request
      = (Inl (HTTPException 400 ''Username or email already exists''), alice_db)"
proof -
  have h1: "UserCreate.username same_username_request = UserCreate.username alice_request
        \<or> UserCreate.email same_username_request = UserCreate.email alice_request"
    by (simp add: same_username_request_def alice_request_def)
  have h2: "\<exists>doc \<in> set (users alice_db).
         User.username doc = UserCreate.username same_email_request
         \<or> User.email doc = UserCreate.email same_email_request"
    by (simp add: alice_db_def alice_doc_def same_email_request_def)
  from duplicate_registration_rejected
    [of alice_db same_email_request example_hashpw example_mac "''secret''" "''account-2''"
        "''pepper''" example_clock example_hashpw example_mac "''secret''" "''account-1''"
        "''salt''" example_clock seed_db alice_request
        "(create_jwt_token example_mac ''secret'' 5002 ''account-1'', alice_profile)"
        alice_db same_username_request]
    register_alice h1
  have r1: "register_user example_hashpw example_mac ''secret'' ''account-2'' ''pepper''
        example_clock alice_db same_username_request
      = (Inl (HTTPException 400 ''Username or email already exists''), alice_db)"
    by blast
  from duplicate_registration_rejected
    [of alice_db same_email_request example_hashpw example_mac "''secret''" "''account-3''"
        "''pepper''" example_clock example_hashpw example_mac "''secret''" "''account-1''"
        "''salt''" example_clock seed_db alice_request
        "(create_jwt_token example_mac ''secret'' 5002 ''account-1'', alice_profile)"
        alice_db same_username_request]
    h2
  have r2: "register_user example_hashpw example_mac ''secret'' ''account-3'' ''pepper''
        example_clock alice_db same_email_request
      = (Inl (HTTPException 400 ''Username or email already exists''), alice_db)"
    by blast
  from register_alice h1 r1 h2 r2 show ?thesis by blast
qed

section \<open>Verification: day windows\<close>




lemma date_window:
  assumes "0 \<le> d" "d < 3652058"
  shows "add_timedelta (d * DAY) DAY = Inr (d * DAY + DAY)"
    and "dayWindow_spec (Some d) t = (d * DAY, d * DAY + DAY)"
proof -
  have D: "(0::int) < DAY" by (simp add: DAY_def)
  from assms(2) have "d + 1 \<le> 3652058" by simp
  then have "(d + 1) * DAY \<le> 3652058 * DAY"
    using D by (simp only: mult_right_mono less_imp_le)
  then have "d * DAY + DAY \<le> 3652058 * DAY" by (simp add: algebra_simps)
  also have "3652058 * DAY \<le> DATETIME_MAX" by (simp add: DAY_def DATETIME_MAX_def)
  finally have hi: "d * DAY + DAY \<le> DATETIME_MAX" .
  have lo: "0 \<le> d * DAY + DAY" using assms(1) D by simp
  from hi lo show "add_timedelta (d * DAY) DAY = Inr (d * DAY + DAY)"
    by (simp add: add_timedelta_def)
  have "24 * HOUR = DAY" by (simp add: DAY_def HOUR_def)
  then show "dayWindow_spec (Some d) t = (d * DAY, d * DAY + DAY)"
    by (simp add: dayWindow_spec_def Let_def)
qed

lemma get_meal_log_window:
  assumes "add_timedelta start DAY = Inr (start + DAY)"
    and "(date = None \<or> date = Some []) \<and> start = replace_midnight (now 0)
         \<or> (\<exists>s. date = Some s \<and> s \<noteq> [] \<and> fromiso s = Some start)"
  shows "get_meal_log fromiso now db date uid
           = Inr (take 1000 (window_meals uid (start, start + DAY) (meal_entries db)))"
  using assms
  by (auto simp: get_meal_log_def window_meals_def in_window_def to_list_def find_docs_def)












section \<open>Verification: list retrieval\<close>

lemma get_meal_log_cases:
  "get_meal_log fromiso now db date uid = Inr r \<Longrightarrow>
   \<exists>start. r = take 1000 (window_meals uid (start, start + DAY) (meal_entries db))"
  by (auto simp: get_meal_log_def window_meals_def in_window_def to_list_def find_docs_def
      add_timedelta_def split: option.splits if_splits sum.splits)

lemma get_meal_log_error_independent:
  "isl (get_meal_log fromiso now db date uid) = isl (get_meal_log fromiso now db' date uid)"
  by (auto simp: get_meal_log_def split: option.splits sum.splits)

text \<open>
  Claim C10. The food catalog, the exercise catalog, the goals list and the meal log each
  return the first 1000 of the matching documents, in the order of the store, and never
  more than 1000. Documents beyond the first 1000 are left out without an error: the
  three catalog and goal operations cannot fail, and whether the meal log fails depends
  on the date and the clock only, not on the documents in the store.
\<close>

theorem list_retrieval_capped:
  "get_food_items db = take 1000 (food_items db)
   \<and> get_exercises db None = take 1000 (exercises db)
   \<and> get_exercises db (Some ty)
       = take 1000 (filter (\<lambda>exercise. Exercise.type exercise = ty) (exercises db))
   \<and> get_user_goals db uid = take 1000 (filter (\<lambda>goal. Goal.user_id goal = uid) (goals db))
   \<and> length (get_food_items db) \<le> 1000
   \<and> length (get_exercises db exercise_type) \<le> 1000
   \<and> length (get_user_goals db uid) \<le> 1000
   \<and> (get_meal_log fromiso now db date uid = Inr r \<longrightarrow>
        length r \<le> 1000
        \<and> (\<exists>start. r = take 1000 (window_meals uid (start, start + DAY) (meal_entries db))))
   \<and> isl (get_meal_log fromiso now db date uid) = isl (get_meal_log fromiso now db' date uid)"
proof -
  have "get_meal_log fromiso now db date uid = Inr r \<longrightarrow>
        length r \<le> 1000
        \<and> (\<exists>start. r = take 1000 (window_meals uid (start, start + DAY) (meal_entries db)))"
  proof
    assume "get_meal_log fromiso now db date uid = Inr r"
    from get_meal_log_cases [OF this] obtain start where
      r: "r = take 1000 (window_meals uid (start, start + DAY) (meal_entries db))"
      by blast
    then have "length r \<le> 1000" by simp
    with r show "length r \<le> 1000
        \<and> (\<exists>start. r = take 1000 (window_meals uid (start, start + DAY) (meal_entries db)))"
      by blast
  qed
  then show ?thesis
    using get_meal_log_error_independent [of fromiso now db date uid db']
    by (simp add: get_food_items_def get_exercises_def get_user_goals_def to_list_def
        find_docs_def)
qed

lemma big_meal_log:
  "get_meal_log example_fromisoformat boundary_clock big_db None ''account-1''
     = Inr (replicate 1000 (meal_at (738000 * DAY)))"
proof -
  have w: "window_meals ''account-1'' (738000 * DAY, 738001 * DAY) (meal_entries big_db)
          = replicate 1001 (meal_at (738000 * DAY))"
    by (simp add: window_meals_def in_window_def big_db_def meal_at_def meal_150_def DAY_def)
  have m: "replace_midnight (boundary_clock 0) = 738000 * DAY"
    by (simp add: replace_midnight_def boundary_clock_def DAY_def HOUR_def)
  have a: "add_timedelta (738000 * DAY) DAY = Inr (738000 * DAY + DAY)"
    using date_window(1) [of 738000] by simp
  have c: "((None :: string option) = None \<or> None = Some [])
             \<and> 738000 * DAY = replace_midnight (boundary_clock 0)
           \<or> (\<exists>s. None = Some s \<and> s \<noteq> [] \<and> example_fromisoformat s = Some (738000 * DAY))"
    by (simp add: m)
  have g: "get_meal_log example_fromisoformat boundary_clock big_db None ''account-1''
        = Inr (take 1000 (window_meals ''account-1'' (738000 * DAY, 738000 * DAY + DAY)
                 (meal_entries big_db)))"
    by (rule get_meal_log_window [where now = boundary_clock, OF a c])
  have e: "(738000::int) * DAY + DAY = 738001 * DAY" by simp
  show ?thesis unfolding g e w by simp
qed

theorem list_retrieval_capped_witness:
  "length (food_items big_db) = 1001
   \<and> get_food_items big_db = replicate 1000 chicken_breast
   \<and> get_exercises big_db (Some STRENGTH) = replicate 1000 push_ups
   \<and> get_user_goals big_db ''account-1'' = replicate 1000 weight_goal
   \<and> length (meal_entries big_db) = 1001
   \<and> get_meal_log example_fromisoformat boundary_clock big_db None ''account-1''
       = Inr (replicate 1000 (meal_at (738000 * DAY)))
   \<and> length (replicate 1000 (meal_at (738000 * DAY))) \<le> 1000"
proof -
  note inst = list_retrieval_capped
    [of big_db STRENGTH "''account-1''" "Some STRENGTH" example_fromisoformat boundary_clock
        None "replicate 1000 (meal_at (738000 * DAY))" big_db]
  from inst have f: "get_food_items big_db = replicate 1000 chicken_breast"
    by (simp add: big_db_def)
  from inst have e: "get_exercises big_db (Some STRENGTH) = replicate 1000 push_ups"
    by (simp add: big_db_def push_ups_def)
  from inst have g: "get_user_goals big_db ''account-1'' = replicate 1000 weight_goal"
    by (simp add: big_db_def weight_goal_def)
  from inst big_meal_log have l: "length (replicate 1000 (meal_at (738000 * DAY))) \<le> 1000"
    by blast
  have n: "length (food_items big_db) = 1001" "length (meal_entries big_db) = 1001"
    by (simp_all add: big_db_def)
  from f e g l n big_meal_log show ?thesis by blast
qed

end
